theory Spec2Isabelle
  imports Main "HOL-Library.Word"
begin

section \<open>Sending notifications over DBus: the model\<close>

text \<open>
  The module \<^verbatim>\<open>qutebrowser/browser/webengine/notification.py\<close> holds one exception
  class, \<^verbatim>\<open>DBusException\<close>, and one class, \<^verbatim>\<open>DBusNotificationManager\<close>, with the
  methods \<^verbatim>\<open>__init__\<close>, \<^verbatim>\<open>set_as_presenter_for\<close>, \<^verbatim>\<open>_present\<close> and
  \<^verbatim>\<open>_convert_image\<close>. Names that start with an underscore lose it here
  (\<open>present\<close>, \<open>convert_image\<close>, \<open>present_and_reset\<close>, \<open>init\<close>).

  Everything the module touches is an object of Qt: the objects are records of what their
  accessors return, mutation is explicit state passing over one \<open>state\<close> record, and what
  Qt or the notification daemon decide (is the bus connected, what does the daemon reply,
  what does a colour conversion produce) is a field of the environment \<open>env\<close>, so that
  every theorem holds for whatever they do.
\<close>

subsection \<open>Values that travel over the bus\<close>

type_synonym byte = "8 word"

text \<open>
  A \<^verbatim>\<open>QVariant\<close> or \<^verbatim>\<open>QDBusArgument\<close>: the constructor is the type the value has on
  the wire. A Python \<^verbatim>\<open>int\<close> handed to PyQt is a signed 32-bit \<open>VInt32\<close> unless the
  code says otherwise, a \<^verbatim>\<open>dict\<close> is a string-keyed map, kept as an association list
  in insertion order like the \<^verbatim>\<open>dict\<close> itself. \<open>VInvalid\<close> is the invalid
  \<^verbatim>\<open>QVariant()\<close>, which Python sees as \<^verbatim>\<open>None\<close>.
\<close>

datatype variant =
    VInvalid
  | VInt32 int
  | VUInt32 nat
  | VBool bool
  | VString string
  | VStringList "string list"
  | VByteArray "byte list"
  | VStruct "variant list"
  | VMap "(string \<times> variant) list"

text \<open>\<^verbatim>\<open>v = QVariant(i); v.convert(QVariant.UInt)\<close>: the C conversion of an int to unsigned.\<close>

definition QVariant_convert_UInt :: "int \<Rightarrow> variant" where
  "QVariant_convert_UInt i = VUInt32 (nat (i mod 2 ^ 32))"

text \<open>\<^verbatim>\<open>d[k] = v\<close> on a Python \<^verbatim>\<open>dict\<close>: replace the value of a key already there, else append.\<close>

fun dict_set :: "('k \<times> 'v) list \<Rightarrow> 'k \<Rightarrow> 'v \<Rightarrow> ('k \<times> 'v) list" where
  "dict_set [] k v = [(k, v)]"
| "dict_set ((k', v') # kvs) k v =
     (if k' = k then (k, v) # kvs else (k', v') # dict_set kvs k v)"

text \<open>\<^verbatim>\<open>"{}".format(n)\<close> for a length \<open>n\<close>: its decimal digits.\<close>

fun str_nat :: "nat \<Rightarrow> string" where
  "str_nat n =
     (if n < 10 then [''0123456789'' ! n]
      else str_nat (n div 10) @ [''0123456789'' ! (n mod 10)])"

declare str_nat.simps [simp del]

subsection \<open>The objects of Qt\<close>

datatype message_type =
  InvalidMessage | MethodCallMessage | ReplyMessage | ErrorMessage | SignalMessage

text \<open>
  A \<^verbatim>\<open>QDBusMessage\<close>, the value of \<^verbatim>\<open>interface.call(...)\<close>. The module reads nothing
  of it but \<^verbatim>\<open>arguments()\<close>; its type and error text are here because the specification
  speaks of error replies.
\<close>

record dbus_message =
  mtype :: message_type
  errorMessage :: string
  arguments :: "variant list"

datatype call_mode = NoBlock | Block | BlockWithGui | AutoDetect

record dbus_connection =
  isConnected :: bool

record dbus_interface =
  service :: string
  path :: string
  interface_name :: string
  connection :: dbus_connection

datatype image_format = Format_Invalid | Format_RGB32 | Format_ARGB32 | Format_RGBA8888
  | Format_Other nat

text \<open>
  A \<^verbatim>\<open>QImage\<close>, as what its accessors return. \<open>constBits\<close> is the memory behind the
  pointer \<^verbatim>\<open>constBits()\<close>; \<^verbatim>\<open>asstring(n)\<close> reads \<open>n\<close> bytes from it.
  \<^verbatim>\<open>byteCount()\<close> is no field of its own: Qt keeps the size of the pixel data of an
  image as its bytes per line times its height, and \<^verbatim>\<open>byteCount()\<close> returns that
  size (0 for a null image, whose bytes per line and height are 0).
\<close>

record qimage =
  isNull :: bool
  format :: image_format
  width :: int
  height :: int
  bytesPerLine :: int
  hasAlphaChannel :: bool
  constBits :: "nat \<Rightarrow> byte"

definition byteCount :: "qimage \<Rightarrow> nat" where
  "byteCount img = nat (bytesPerLine img * height img)"

definition asstring :: "(nat \<Rightarrow> byte) \<Rightarrow> nat \<Rightarrow> byte list" where
  "asstring p n = map p [0..<n]"

text \<open>
  A \<^verbatim>\<open>QWebEngineNotification\<close>: \<open>origin_display\<close> is \<^verbatim>\<open>origin().toDisplayString()\<close>,
  \<open>icon\<close> the image the engine holds for it, \<open>shown\<close> whether \<^verbatim>\<open>show()\<close> was called.
\<close>

record qt_notification =
  title :: string
  message :: string
  origin_display :: string
  icon :: qimage
  shown :: bool

subsection \<open>Errors, the environment and the state\<close>

datatype error = DBusException string

type_synonym handle = nat
type_synonym profile = nat

text \<open>The closure \<^verbatim>\<open>_present_and_reset\<close> of \<^verbatim>\<open>set_as_presenter_for\<close>, with the profile it captured.\<close>

datatype callback = Present_and_reset profile

record env =
  sessionBus :: dbus_connection
  interface_isValid :: "dbus_interface \<Rightarrow> bool"
  interface_call :: "call_mode \<Rightarrow> string \<Rightarrow> variant list \<Rightarrow> dbus_message"
  convertTo :: "qimage \<Rightarrow> image_format \<Rightarrow> qimage"
  one_shot :: bool

text \<open>
  \<open>sessionBus\<close> is what \<^verbatim>\<open>QDBusConnection.sessionBus()\<close> returns,
  \<open>interface_isValid\<close> what \<^verbatim>\<open>isValid()\<close> of a constructed \<^verbatim>\<open>QDBusInterface\<close> would
  say (whether Qt could bind the handle to the service; the module never asks),
  \<open>interface_call\<close> the message that answers a call as it arrives from the bus,
  \<open>convertTo\<close> the result of \<^verbatim>\<open>QImage.convertTo\<close>, and \<open>one_shot\<close> says whether the
  engine gives up its presenter when it invokes it, which is what the re-installation
  guards against.
\<close>

record manager =
  active_notifications :: "nat \<rightharpoonup> handle"
  interface :: dbus_interface

text \<open>What the outside can see happen, in the order it happens.\<close>

datatype event =
    SetNotificationPresenter profile callback
  | Show handle
  | InterfaceCall call_mode string "variant list"
  | LogDebug string variant

text \<open>
  \<open>self\<close> is the manager, \<open>presenter\<close> the callback installed on each profile,
  \<open>notifications\<close> the engine's notification objects, \<open>images\<close> the \<^verbatim>\<open>QImage\<close>
  objects Python holds, by address, and \<open>next_image\<close> the next free address.
\<close>

record state =
  self :: manager
  presenter :: "profile \<Rightarrow> callback option"
  notifications :: "handle \<Rightarrow> qt_notification"
  images :: "nat \<Rightarrow> qimage"
  next_image :: nat
  events :: "event list"

subsection \<open>The collaborators' methods\<close>

definition setNotificationPresenter :: "profile \<Rightarrow> callback \<Rightarrow> state \<Rightarrow> state" where
  "setNotificationPresenter p cb st =
     st\<lparr>presenter := (presenter st)(p := Some cb),
        events := events st @ [SetNotificationPresenter p cb]\<rparr>"

definition notification_show :: "handle \<Rightarrow> state \<Rightarrow> state" where
  "notification_show h st =
     st\<lparr>notifications := (notifications st)(h := (notifications st h)\<lparr>shown := True\<rparr>),
        events := events st @ [Show h]\<rparr>"

text \<open>
  \<^verbatim>\<open>qt_notification.icon()\<close> returns a \<^verbatim>\<open>QImage\<close> by value
  (\<^verbatim>\<open>QImage QWebEngineNotification::icon() const\<close>): every call gives Python a new
  object, a copy of the engine's image, at a fresh address.
\<close>

definition notification_icon :: "handle \<Rightarrow> state \<Rightarrow> nat \<times> state" where
  "notification_icon h st =
     (next_image st,
      st\<lparr>images := (images st)(next_image st := icon (notifications st h)),
         next_image := Suc (next_image st)\<rparr>)"

text \<open>
  \<^verbatim>\<open>not self.interface\<close> asks for the truth value of a \<^verbatim>\<open>QDBusInterface\<close> object.
  The class defines neither \<^verbatim>\<open>__bool__\<close> nor \<^verbatim>\<open>__len__\<close>, so every such object is
  true, whether the handle is valid or not.
\<close>

definition QDBusInterface_bool :: "dbus_interface \<Rightarrow> bool" where
  "QDBusInterface_bool iface = True"

text \<open>
  \<^verbatim>\<open>interface.call(mode, method, *args)\<close>: the message that answers the call, for which
  \<^verbatim>\<open>QDBusAbstractInterface\<close> makes sure that there is at least one argument: to a
  message without arguments, an error without a body among them, it appends one invalid
  \<^verbatim>\<open>QVariant\<close>.
\<close>

definition QDBusInterface_call ::
  "env \<Rightarrow> call_mode \<Rightarrow> string \<Rightarrow> variant list \<Rightarrow> dbus_message" where
  "QDBusInterface_call e mode method args =
     (let reply = interface_call e mode method args
      in if arguments reply = [] then reply\<lparr>arguments := [VInvalid]\<rparr> else reply)"

subsection \<open>The manager\<close>

text \<open>\<^verbatim>\<open>DBusNotificationManager.__init__\<close>\<close>

definition init :: "env \<Rightarrow> error + manager" where
  "init e =
     (let bus = sessionBus e in
      if \<not> isConnected bus then Inl (DBusException ''Failed to connect to DBus session bus'')
      else
        let iface = \<lparr>service = ''org.freedesktop.Notifications'',
                     path = ''/org/freedesktop/Notifications'',
                     interface_name = ''org.freedesktop.Notifications'',
                     connection = bus\<rparr> in
        if \<not> QDBusInterface_bool iface then
          Inl (DBusException ''Could not construct a DBus interface'')
        else Inr \<lparr>active_notifications = Map.empty, interface = iface\<rparr>)"

text \<open>
  \<^verbatim>\<open>_convert_image\<close>, on the image object at address \<open>a\<close>: \<^verbatim>\<open>convertTo\<close> changes that
  object, and the seven fields are read from it afterwards. This is the function for an
  image that is not null after the conversion, the only kind that \<open>present\<close> hands over
  when the conversion works: a null image has no pixel data, \<^verbatim>\<open>constBits()\<close> is
  \<^verbatim>\<open>None\<close> for it and the method stops with Python's \<^verbatim>\<open>AttributeError\<close>.
\<close>

definition convert_image :: "env \<Rightarrow> nat \<Rightarrow> state \<Rightarrow> variant \<times> state" where
  "convert_image e a st =
     (let st1 = st\<lparr>images := (images st)(a := convertTo e (images st a) Format_RGBA8888)\<rparr>;
          qimage = images st1 a;
          bits = asstring (constBits qimage) (byteCount qimage)
      in (VStruct [VInt32 (width qimage), VInt32 (height qimage),
                   VInt32 (bytesPerLine qimage), VBool (hasAlphaChannel qimage),
                   VInt32 8, VInt32 4, VByteArray bits],
          st1))"

text \<open>
  \<^verbatim>\<open>_present\<close>, in two halves. The first is the function up to the remote call: it
  shows the notification, builds the hints and gives the positional arguments of the call.
\<close>

definition present_arguments :: "env \<Rightarrow> handle \<Rightarrow> state \<Rightarrow> variant list \<times> state" where
  "present_arguments e h st =
     (let notification_id = QVariant_convert_UInt 0;
          actions_list = VStringList [];
          st1 = notification_show h st;
          hints0 = [(''x-qutebrowser-origin'', VString (origin_display (notifications st1 h)))];
          (a0, st2) = notification_icon h st1;
          (hints, st3) =
             (if \<not> isNull (images st2 a0) then
                let (a1, st') = notification_icon h st2;
                    (image_data, st'') = convert_image e a1 st'
                in (dict_set hints0 ''image-data'' image_data, st'')
              else (hints0, st2))
      in ([VString ''qutebrowser'', notification_id, VString ''qutebrowser'',
           VString (title (notifications st3 h)),
           VString (message (notifications st3 h)),
           actions_list, VMap hints, VInt32 (- 1)],
          st3))"

text \<open>The second half: the call, the check of the reply and the log line.\<close>

definition present :: "env \<Rightarrow> handle \<Rightarrow> state \<Rightarrow> (error + unit) \<times> state" where
  "present e h st =
     (let (args, st3) = present_arguments e h st;
          reply = QDBusInterface_call e BlockWithGui ''Notify'' args;
          st4 = st3\<lparr>events := events st3 @ [InterfaceCall BlockWithGui ''Notify'' args]\<rparr>
      in if \<not> (length (arguments reply) = 1) then
           (Inl (DBusException (''Got an unexpected number of reply arguments ''
                                @ str_nat (length (arguments reply)))),
            st4)
         else
           let notification_id = arguments reply ! 0
           in (Inr (),
               st4\<lparr>events := events st4
                      @ [LogDebug ''Sent out notification {}'' notification_id]\<rparr>))"

text \<open>The closure \<^verbatim>\<open>_present_and_reset\<close> that \<^verbatim>\<open>set_as_presenter_for(profile)\<close> builds.\<close>

definition present_and_reset ::
  "env \<Rightarrow> profile \<Rightarrow> handle \<Rightarrow> state \<Rightarrow> (error + unit) \<times> state" where
  "present_and_reset e p h st =
     (let st1 = setNotificationPresenter p (Present_and_reset p) st
      in present e h st1)"

text \<open>\<^verbatim>\<open>set_as_presenter_for\<close>\<close>

definition set_as_presenter_for :: "profile \<Rightarrow> state \<Rightarrow> state" where
  "set_as_presenter_for p st = setNotificationPresenter p (Present_and_reset p) st"

subsection \<open>The embedding engine\<close>

text \<open>
  A notification request of profile \<open>p\<close> reaches the presenter installed on \<open>p\<close>, if
  there is one. An engine with \<open>one_shot\<close> callbacks gives up its presenter as it
  invokes it.
\<close>

definition engine_notify :: "env \<Rightarrow> profile \<Rightarrow> handle \<Rightarrow> state \<Rightarrow> (error + unit) \<times> state" where
  "engine_notify e p h st =
     (case presenter st p of
        None \<Rightarrow> (Inr (), st)
      | Some (Present_and_reset q) \<Rightarrow>
          present_and_reset e q h
            (if one_shot e then st\<lparr>presenter := (presenter st)(p := None)\<rparr> else st))"

text \<open>
  What the embedder and the engine do to a manager, one after the other; every step has
  its own environment, so the daemon may answer each call differently.
\<close>

datatype op = Set_as_presenter_for profile | Notification profile handle

fun run :: "state \<Rightarrow> (env \<times> op) list \<Rightarrow> state" where
  "run st [] = st"
| "run st ((e, Set_as_presenter_for p) # os) = run (set_as_presenter_for p st) os"
| "run st ((e, Notification p h) # os) = run (snd (engine_notify e p h st)) os"

text \<open>The remote calls among the events, in order.\<close>

fun calls :: "event list \<Rightarrow> (call_mode \<times> string \<times> variant list) list" where
  "calls [] = []"
| "calls (InterfaceCall m n args # es) = (m, n, args) # calls es"
| "calls (SetNotificationPresenter p cb # es) = calls es"
| "calls (Show h # es) = calls es"
| "calls (LogDebug s v # es) = calls es"

subsection \<open>Concrete inputs\<close>

text \<open>
  A notification without an icon and one with a 2 by 1 icon in another pixel format, a
  state that holds them as notifications 0 and 1 next to a freshly built manager, and an
  environment whose daemon answers every call with the reply \<open>r\<close>.
\<close>

definition null_image :: qimage where
  "null_image = \<lparr>isNull = True, format = Format_Invalid, width = 0, height = 0,
     bytesPerLine = 0, hasAlphaChannel = False, constBits = (\<lambda>_. 0)\<rparr>"

definition argb_image :: qimage where
  "argb_image = \<lparr>isNull = False, format = Format_ARGB32, width = 2, height = 1,
     bytesPerLine = 8, hasAlphaChannel = True, constBits = (\<lambda>_. 255)\<rparr>"

definition example_convertTo :: "qimage \<Rightarrow> image_format \<Rightarrow> qimage" where
  "example_convertTo img f =
     (if isNull img \<or> format img = f then img
      else img\<lparr>format := f, bytesPerLine := 4 * width img, hasAlphaChannel := True\<rparr>)"

text \<open>
  A 1 by 2 icon whose eight bytes differ (blue, green, red, alpha for each pixel), and a
  conversion that puts the bytes of a pixel in the order red, green, blue, alpha.
\<close>

definition bgra_image :: qimage where
  "bgra_image = \<lparr>isNull = False, format = Format_ARGB32, width = 1, height = 2,
     bytesPerLine = 4, hasAlphaChannel = True,
     constBits = (\<lambda>i. [10, 11, 12, 13, 14, 15, 16, 17] ! i)\<rparr>"

definition swap_red_blue :: "(nat \<Rightarrow> byte) \<Rightarrow> nat \<Rightarrow> byte" where
  "swap_red_blue p i =
     (if i mod 4 = 0 then p (i + 2) else if i mod 4 = 2 then p (i - 2) else p i)"

definition bgra_convertTo :: "qimage \<Rightarrow> image_format \<Rightarrow> qimage" where
  "bgra_convertTo img f =
     (if isNull img \<or> format img = f then img
      else img\<lparr>format := f, bytesPerLine := 4 * width img, hasAlphaChannel := True,
               constBits := swap_red_blue (constBits img)\<rparr>)"

definition example_interface :: dbus_interface where
  "example_interface = \<lparr>service = ''org.freedesktop.Notifications'',
     path = ''/org/freedesktop/Notifications'',
     interface_name = ''org.freedesktop.Notifications'',
     connection = \<lparr>isConnected = True\<rparr>\<rparr>"

definition example_env :: "dbus_message \<Rightarrow> env" where
  "example_env r = \<lparr>sessionBus = \<lparr>isConnected = True\<rparr>, interface_isValid = (\<lambda>_. True),
     interface_call = (\<lambda>_ _ _. r), convertTo = example_convertTo, one_shot = True\<rparr>"

definition example_notification :: "qimage \<Rightarrow> qt_notification" where
  "example_notification img = \<lparr>title = ''Build failed'', message = ''see log'',
     origin_display = ''https://ci.example.com'', icon = img, shown = False\<rparr>"

definition example_state :: state where
  "example_state = \<lparr>self = \<lparr>active_notifications = Map.empty, interface = example_interface\<rparr>,
     presenter = (\<lambda>_. None),
     notifications = (\<lambda>h. example_notification (if h = 0 then null_image else argb_image)),
     images = (\<lambda>_. null_image), next_image = 0, events = []\<rparr>"

definition reply_with :: "variant list \<Rightarrow> dbus_message" where
  "reply_with vs = \<lparr>mtype = ReplyMessage, errorMessage = [], arguments = vs\<rparr>"

definition error_with :: "string \<Rightarrow> variant list \<Rightarrow> dbus_message" where
  "error_with txt vs = \<lparr>mtype = ErrorMessage, errorMessage = txt, arguments = vs\<rparr>"

section \<open>What every call of the methods does\<close>

lemma calls_append: "calls (xs @ ys) = calls xs @ calls ys"
  by (induction xs rule: calls.induct) simp_all

lemma present_arguments_fst:
  "fst (present_arguments e h st) =
     [VString ''qutebrowser'', VUInt32 0, VString ''qutebrowser'',
      VString (title (notifications st h)), VString (message (notifications st h)),
      VStringList [],
      VMap (if isNull (icon (notifications st h))
            then [(''x-qutebrowser-origin'', VString (origin_display (notifications st h)))]
            else [(''x-qutebrowser-origin'', VString (origin_display (notifications st h))),
                  (''image-data'',
                   VStruct [VInt32 (width (convertTo e (icon (notifications st h)) Format_RGBA8888)),
                            VInt32 (height (convertTo e (icon (notifications st h)) Format_RGBA8888)),
                            VInt32 (bytesPerLine (convertTo e (icon (notifications st h)) Format_RGBA8888)),
                            VBool (hasAlphaChannel (convertTo e (icon (notifications st h)) Format_RGBA8888)),
                            VInt32 8, VInt32 4,
                            VByteArray (asstring (constBits (convertTo e (icon (notifications st h)) Format_RGBA8888))
                                                 (byteCount (convertTo e (icon (notifications st h)) Format_RGBA8888)))])]),
      VInt32 (- 1)]"
  by (simp add: present_arguments_def Let_def notification_show_def notification_icon_def
      convert_image_def QVariant_convert_UInt_def split: prod.splits)

lemma present_arguments_self: "self (snd (present_arguments e h st)) = self st"
  by (simp add: present_arguments_def Let_def notification_show_def notification_icon_def
      convert_image_def split: prod.splits)

lemma present_arguments_presenter: "presenter (snd (present_arguments e h st)) = presenter st"
  by (simp add: present_arguments_def Let_def notification_show_def notification_icon_def
      convert_image_def split: prod.splits)

lemma present_arguments_notifications:
  "notifications (snd (present_arguments e h st)) =
     (notifications st)(h := (notifications st h)\<lparr>shown := True\<rparr>)"
  by (simp add: present_arguments_def Let_def notification_show_def notification_icon_def
      convert_image_def split: prod.splits)

lemma present_arguments_events:
  "events (snd (present_arguments e h st)) = events st @ [Show h]"
  by (simp add: present_arguments_def Let_def notification_show_def notification_icon_def
      convert_image_def split: prod.splits)

lemma present_fst:
  "fst (present e h st) =
     (if length (arguments (QDBusInterface_call e BlockWithGui ''Notify'' (fst (present_arguments e h st)))) = 1
      then Inr ()
      else Inl (DBusException (''Got an unexpected number of reply arguments '' @
             str_nat (length (arguments (QDBusInterface_call e BlockWithGui ''Notify'' (fst (present_arguments e h st))))))))"
  by (simp add: present_def Let_def case_prod_beta)

lemma present_events:
  "events (snd (present e h st)) =
     events st @ [Show h, InterfaceCall BlockWithGui ''Notify'' (fst (present_arguments e h st))] @
     (if length (arguments (QDBusInterface_call e BlockWithGui ''Notify'' (fst (present_arguments e h st)))) = 1
      then [LogDebug ''Sent out notification {}''
              (arguments (QDBusInterface_call e BlockWithGui ''Notify'' (fst (present_arguments e h st))) ! 0)]
      else [])"
  by (simp add: present_def Let_def case_prod_beta present_arguments_events)

lemma present_self: "self (snd (present e h st)) = self st"
  by (simp add: present_def Let_def case_prod_beta present_arguments_self)

lemma present_presenter: "presenter (snd (present e h st)) = presenter st"
  by (simp add: present_def Let_def case_prod_beta present_arguments_presenter)

lemma present_notifications:
  "notifications (snd (present e h st)) =
     (notifications st)(h := (notifications st h)\<lparr>shown := True\<rparr>)"
  by (simp add: present_def Let_def case_prod_beta present_arguments_notifications)

lemma present_calls:
  "calls (events (snd (present e h st))) =
     calls (events st) @ [(BlockWithGui, ''Notify'', fst (present_arguments e h st))]"
  by (simp add: present_events calls_append)

lemma example_arguments:
  "fst (present_arguments (example_env r) 0 example_state) =
     [VString ''qutebrowser'', VUInt32 0, VString ''qutebrowser'', VString ''Build failed'',
      VString ''see log'', VStringList [],
      VMap [(''x-qutebrowser-origin'', VString ''https://ci.example.com'')], VInt32 (- 1)]"
  by (simp add: present_arguments_fst example_state_def example_notification_def
      null_image_def)

lemma arguments_call:
  "arguments (QDBusInterface_call e m n args) =
     (if arguments (interface_call e m n args) = [] then [VInvalid]
      else arguments (interface_call e m n args))"
  by (simp add: QDBusInterface_call_def Let_def)

lemma example_call: "interface_call (example_env r) m n args = r"
  by (simp add: example_env_def)

lemma init_result:
  "init e =
     (if \<not> isConnected (sessionBus e)
      then Inl (DBusException ''Failed to connect to DBus session bus'')
      else Inr \<lparr>active_notifications = Map.empty,
                interface = \<lparr>service = ''org.freedesktop.Notifications'',
                              path = ''/org/freedesktop/Notifications'',
                              interface_name = ''org.freedesktop.Notifications'',
                              connection = sessionBus e\<rparr>\<rparr>)"
  by (simp add: init_def Let_def QDBusInterface_bool_def)

lemma str_nat_digit: "n < 10 \<Longrightarrow> str_nat n = [''0123456789'' ! n]"
  by (simp add: str_nat.simps)

lemma arguments_reply_with: "arguments (reply_with vs) = vs"
  by (simp add: reply_with_def)

lemma arguments_error_with: "arguments (error_with txt vs) = vs"
  by (simp add: error_with_def)

lemma mtype_error_with: "mtype (error_with txt vs) = ErrorMessage"
  by (simp add: error_with_def)

lemma example_state_events: "events example_state = []"
  by (simp add: example_state_def)

lemma example_state_registry: "active_notifications (self example_state) = Map.empty"
  by (simp add: example_state_def)

lemma convert_image_fst:
  "fst (convert_image e a st) =
     VStruct [VInt32 (width (convertTo e (images st a) Format_RGBA8888)),
              VInt32 (height (convertTo e (images st a) Format_RGBA8888)),
              VInt32 (bytesPerLine (convertTo e (images st a) Format_RGBA8888)),
              VBool (hasAlphaChannel (convertTo e (images st a) Format_RGBA8888)),
              VInt32 8, VInt32 4,
              VByteArray (asstring (constBits (convertTo e (images st a) Format_RGBA8888))
                                   (byteCount (convertTo e (images st a) Format_RGBA8888)))]"
  by (simp add: convert_image_def Let_def)

lemma convert_image_snd:
  "snd (convert_image e a st) =
     st\<lparr>images := (images st)(a := convertTo e (images st a) Format_RGBA8888)\<rparr>"
  by (simp add: convert_image_def Let_def)

lemma length_asstring: "length (asstring p n) = n"
  by (simp add: asstring_def)

lemma present_arguments_images:
  "\<not> isNull (icon (notifications st h)) \<Longrightarrow>
   images (snd (present_arguments e h st)) =
     (images st)(next_image st := icon (notifications st h),
                 Suc (next_image st) := convertTo e (icon (notifications st h)) Format_RGBA8888)"
  by (simp add: present_arguments_def Let_def notification_show_def notification_icon_def
      convert_image_def split: prod.splits)

lemma present_images: "images (snd (present e h st)) = images (snd (present_arguments e h st))"
  by (simp add: present_def Let_def case_prod_beta)

lemma present_and_reset_self: "self (snd (present_and_reset e p h st)) = self st"
  by (simp add: present_and_reset_def Let_def present_self setNotificationPresenter_def)

lemma present_and_reset_presenter:
  "presenter (snd (present_and_reset e p h st)) = (presenter st)(p := Some (Present_and_reset p))"
  by (simp add: present_and_reset_def Let_def present_presenter setNotificationPresenter_def)

lemma present_and_reset_events:
  "events (snd (present_and_reset e p h st)) =
     events st @ SetNotificationPresenter p (Present_and_reset p)
       # drop (length (events st)) (events (snd (present e h st)))"
  by (simp add: present_and_reset_def Let_def present_events present_arguments_fst
      setNotificationPresenter_def)

lemma present_and_reset_calls:
  "calls (events (snd (present_and_reset e p h st))) =
     calls (events st) @ [(BlockWithGui, ''Notify'', fst (present_arguments e h st))]"
  by (simp add: present_and_reset_def Let_def present_calls present_arguments_fst
      setNotificationPresenter_def calls_append)

lemma set_as_presenter_for_self: "self (set_as_presenter_for p st) = self st"
  by (simp add: set_as_presenter_for_def setNotificationPresenter_def)

lemma engine_notify_self: "self (snd (engine_notify e p h st)) = self st"
  by (simp add: engine_notify_def present_and_reset_self split: option.splits callback.splits)

lemma run_self: "self (run st os) = self st"
  by (induction st os rule: run.induct)
    (simp_all add: set_as_presenter_for_self engine_notify_self)

lemma engine_notify_presenter:
  "presenter st p = Some (Present_and_reset p) \<Longrightarrow>
   presenter (snd (engine_notify e q h st)) p = Some (Present_and_reset p)"
  by (auto simp add: engine_notify_def present_and_reset_presenter
      split: option.splits callback.splits)

lemma set_as_presenter_for_presenter:
  "presenter st p = Some (Present_and_reset p) \<Longrightarrow>
   presenter (set_as_presenter_for q st) p = Some (Present_and_reset p)"
  by (simp add: set_as_presenter_for_def setNotificationPresenter_def)

lemma run_presenter:
  "presenter st p = Some (Present_and_reset p) \<Longrightarrow>
   presenter (run st os) p = Some (Present_and_reset p)"
  by (induction st os rule: run.induct)
    (simp_all add: set_as_presenter_for_presenter engine_notify_presenter)

lemma engine_notify_calls:
  "presenter st p = Some (Present_and_reset p) \<Longrightarrow>
   calls (events (snd (engine_notify e p h st))) =
     calls (events st) @ [(BlockWithGui, ''Notify'', fst (present_arguments e h st))]"
  by (simp add: engine_notify_def present_and_reset_calls present_arguments_fst)

section \<open>Bridge initialisation\<close>

text \<open>
  Claim C8 says that construction fails when no connection to the session bus can be
  established, and fails with the same kind of error when the interface handle cannot be
  constructed. The first half holds. The second does not: the test
  \<^verbatim>\<open>not self.interface\<close> asks for the truth value of the object, which is true for
  every \<^verbatim>\<open>QDBusInterface\<close>, and \<^verbatim>\<open>isValid()\<close> is never asked. On a connected bus
  where the handle is not valid, construction succeeds and keeps the invalid handle.
\<close>

theorem init_accepts_invalid_interface:
  "isConnected (sessionBus ((example_env (reply_with [VUInt32 7]))
      \<lparr>interface_isValid := (\<lambda>_. False)\<rparr>))
   \<and> \<not> interface_isValid ((example_env (reply_with [VUInt32 7]))
      \<lparr>interface_isValid := (\<lambda>_. False)\<rparr>) example_interface
   \<and> init ((example_env (reply_with [VUInt32 7]))\<lparr>interface_isValid := (\<lambda>_. False)\<rparr>) =
       Inr \<lparr>active_notifications = Map.empty, interface = example_interface\<rparr>
   \<and> init ((example_env (reply_with [VUInt32 7]))\<lparr>sessionBus := \<lparr>isConnected = False\<rparr>\<rparr>) =
       Inl (DBusException ''Failed to connect to DBus session bus'')"
  by (simp add: init_result example_env_def example_interface_def)

section \<open>The reply of the daemon\<close>

lemma present_two_or_more_arguments:
  assumes "reply = interface_call e BlockWithGui ''Notify'' (fst (present_arguments e h st))"
    and "2 \<le> length (arguments reply)"
  shows "fst (present e h st) =
           Inl (DBusException (''Got an unexpected number of reply arguments ''
                               @ str_nat (length (arguments reply))))
       \<and> active_notifications (self (snd (present e h st))) = active_notifications (self st)
       \<and> shown (notifications (snd (present e h st)) h)"
proof -
  from assms(2) have "arguments reply \<noteq> []" and "length (arguments reply) \<noteq> 1"
    by auto
  with assms(1) show ?thesis
    by (simp add: present_fst present_self present_notifications arguments_call)
qed

text \<open>
  Claim C4 says that a reply with a number of arguments other than one, none among them,
  makes \<open>present\<close> raise the error that carries the number. For two or more arguments it
  does. For a reply without arguments it does not: the message that \<^verbatim>\<open>interface.call\<close>
  hands to \<open>present\<close> then has one argument, the invalid value, so the check of the
  number passes, \<open>present\<close> returns normally and logs \<^verbatim>\<open>None\<close> as the identifier.
\<close>

theorem present_accepts_empty_reply:
  "arguments (reply_with []) = []
   \<and> fst (present (example_env (reply_with [])) 0 example_state) = Inr ()
   \<and> events (snd (present (example_env (reply_with [])) 0 example_state)) =
       [Show 0,
        InterfaceCall BlockWithGui ''Notify''
          [VString ''qutebrowser'', VUInt32 0, VString ''qutebrowser'', VString ''Build failed'',
           VString ''see log'', VStringList [],
           VMap [(''x-qutebrowser-origin'', VString ''https://ci.example.com'')], VInt32 (- 1)],
        LogDebug ''Sent out notification {}'' VInvalid]
   \<and> fst (present (example_env (reply_with [VUInt32 7, VUInt32 8])) 0 example_state) =
       Inl (DBusException ''Got an unexpected number of reply arguments 2'')"
  by (simp add: present_fst present_events example_arguments arguments_call example_call
      arguments_reply_with example_state_events str_nat_digit)

text \<open>
  Claim C1 says that after a reply with the one identifier \<open>N \<noteq> 0\<close> the registry maps
  \<open>N\<close> to the presented notification. The code takes the identifier out of the reply and
  writes the log line, and that is all: for the notification \<^verbatim>\<open>Build failed\<close> and the
  reply 7, \<open>present\<close> returns normally, logs 7, and the registry is still empty.
\<close>

theorem present_drops_assigned_id:
  "fst (present (example_env (reply_with [VUInt32 7])) 0 example_state) = Inr ()
   \<and> active_notifications
        (self (snd (present (example_env (reply_with [VUInt32 7])) 0 example_state))) 7 = None
   \<and> active_notifications
        (self (snd (present (example_env (reply_with [VUInt32 7])) 0 example_state))) = Map.empty
   \<and> events (snd (present (example_env (reply_with [VUInt32 7])) 0 example_state)) =
       [Show 0,
        InterfaceCall BlockWithGui ''Notify''
          [VString ''qutebrowser'', VUInt32 0, VString ''qutebrowser'', VString ''Build failed'',
           VString ''see log'', VStringList [],
           VMap [(''x-qutebrowser-origin'', VString ''https://ci.example.com'')], VInt32 (- 1)],
        LogDebug ''Sent out notification {}'' (VUInt32 7)]"
  by (simp add: present_fst present_self present_events example_arguments arguments_call
      example_call arguments_reply_with example_state_events example_state_registry)

text \<open>
  Claim C2 says that a bus-level error reply makes \<open>present\<close> raise an error that carries
  the daemon's error text. The code never reads the type or the error text of the reply.
  An error reply whose one argument is its text passes the check of the number of
  arguments: \<open>present\<close> returns normally and logs the text as the identifier of the
  notification. An error reply without a body does the same and logs \<^verbatim>\<open>None\<close>.
\<close>

theorem present_takes_error_for_success:
  "mtype (error_with ''no such service'' [VString ''no such service'']) = ErrorMessage
   \<and> fst (present (example_env (error_with ''no such service'' [VString ''no such service'']))
          0 example_state) = Inr ()
   \<and> events (snd (present
        (example_env (error_with ''no such service'' [VString ''no such service'']))
        0 example_state)) =
       [Show 0,
        InterfaceCall BlockWithGui ''Notify''
          [VString ''qutebrowser'', VUInt32 0, VString ''qutebrowser'', VString ''Build failed'',
           VString ''see log'', VStringList [],
           VMap [(''x-qutebrowser-origin'', VString ''https://ci.example.com'')], VInt32 (- 1)],
        LogDebug ''Sent out notification {}'' (VString ''no such service'')]
   \<and> fst (present (example_env (error_with ''no such service'' [])) 0 example_state) = Inr ()
   \<and> events (snd (present (example_env (error_with ''no such service'' [])) 0 example_state)) =
       [Show 0,
        InterfaceCall BlockWithGui ''Notify''
          [VString ''qutebrowser'', VUInt32 0, VString ''qutebrowser'', VString ''Build failed'',
           VString ''see log'', VStringList [],
           VMap [(''x-qutebrowser-origin'', VString ''https://ci.example.com'')], VInt32 (- 1)],
        LogDebug ''Sent out notification {}'' VInvalid]"
  by (simp add: present_fst present_events example_arguments arguments_call example_call
      arguments_error_with mtype_error_with example_state_events)

section \<open>The request\<close>

text \<open>
  Claim C5. Every call of \<open>present\<close> issues the remote call \<^verbatim>\<open>Notify\<close> (blocking with
  the event loop running) with exactly these positional arguments, in this order: the
  string \<^verbatim>\<open>qutebrowser\<close>, the identifier 0 typed as an unsigned 32-bit integer
  (so not the signed 0 that a plain Python \<^verbatim>\<open>0\<close> becomes), the string
  \<^verbatim>\<open>qutebrowser\<close>, the title, the message, an empty list of strings, the hints map
  (the origin, and the encoded icon when there is one), and the signed 32-bit \<open>-1\<close>.
\<close>

theorem present_notify_call:
  "calls (events (snd (present e h st))) =
     calls (events st) @
     [(BlockWithGui, ''Notify'',
       [VString ''qutebrowser'', VUInt32 0, VString ''qutebrowser'',
        VString (title (notifications st h)), VString (message (notifications st h)),
        VStringList [],
        VMap (if isNull (icon (notifications st h))
              then [(''x-qutebrowser-origin'', VString (origin_display (notifications st h)))]
              else [(''x-qutebrowser-origin'', VString (origin_display (notifications st h))),
                    (''image-data'',
                     fst (convert_image e a
                           (st\<lparr>images := (images st)(a := icon (notifications st h))\<rparr>)))]),
        VInt32 (- 1)])]
   \<and> fst (present_arguments e h st) ! 1 = VUInt32 0
   \<and> fst (present_arguments e h st) ! 1 \<noteq> VInt32 0"
  by (simp add: present_calls present_arguments_fst convert_image_fst)

theorem present_notify_call_witness:
  "calls (events (snd (present (example_env (reply_with [VUInt32 7])) 0 example_state))) =
     [(BlockWithGui, ''Notify'',
       [VString ''qutebrowser'', VUInt32 0, VString ''qutebrowser'', VString ''Build failed'',
        VString ''see log'', VStringList [],
        VMap [(''x-qutebrowser-origin'', VString ''https://ci.example.com'')], VInt32 (- 1)])]"
  using present_notify_call [of "example_env (reply_with [VUInt32 7])" 0 example_state 0]
  by (simp add: example_state_def example_notification_def null_image_def)

text \<open>
  Claim C7. For a notification whose icon is null, \<open>present\<close> issues exactly one remote
  call, and its hints map is the one entry \<^verbatim>\<open>x-qutebrowser-origin\<close> with the origin's
  display string: there is no \<^verbatim>\<open>image-data\<close> key. For a notification whose icon is
  not null, it issues exactly one remote call whose hints map holds the origin and, under
  \<^verbatim>\<open>image-data\<close>, what the encoder makes of the icon.
\<close>

theorem present_hints:
  "(isNull (icon (notifications st h)) \<longrightarrow>
      calls (events (snd (present e h st))) =
        calls (events st) @
        [(BlockWithGui, ''Notify'',
          [VString ''qutebrowser'', VUInt32 0, VString ''qutebrowser'',
           VString (title (notifications st h)), VString (message (notifications st h)),
           VStringList [],
           VMap [(''x-qutebrowser-origin'', VString (origin_display (notifications st h)))],
           VInt32 (- 1)])])
   \<and> (\<not> isNull (icon (notifications st h)) \<longrightarrow>
      calls (events (snd (present e h st))) =
        calls (events st) @
        [(BlockWithGui, ''Notify'',
          [VString ''qutebrowser'', VUInt32 0, VString ''qutebrowser'',
           VString (title (notifications st h)), VString (message (notifications st h)),
           VStringList [],
           VMap [(''x-qutebrowser-origin'', VString (origin_display (notifications st h))),
                 (''image-data'',
                  fst (convert_image e a
                        (st\<lparr>images := (images st)(a := icon (notifications st h))\<rparr>)))],
           VInt32 (- 1)])])"
  by (simp add: present_calls present_arguments_fst convert_image_fst)

theorem present_hints_witness:
  "isNull (icon (notifications example_state 0))
   \<and> calls (events (snd (present (example_env (reply_with [VUInt32 7])) 0 example_state))) =
     [(BlockWithGui, ''Notify'',
       [VString ''qutebrowser'', VUInt32 0, VString ''qutebrowser'', VString ''Build failed'',
        VString ''see log'', VStringList [],
        VMap [(''x-qutebrowser-origin'', VString ''https://ci.example.com'')], VInt32 (- 1)])]
   \<and> \<not> isNull (icon (notifications example_state 1))
   \<and> calls (events (snd (present (example_env (reply_with [VUInt32 7])) 1 example_state))) =
     [(BlockWithGui, ''Notify'',
       [VString ''qutebrowser'', VUInt32 0, VString ''qutebrowser'', VString ''Build failed'',
        VString ''see log'', VStringList [],
        VMap [(''x-qutebrowser-origin'', VString ''https://ci.example.com''),
              (''image-data'',
               VStruct [VInt32 2, VInt32 1, VInt32 8, VBool True, VInt32 8, VInt32 4,
                        VByteArray (asstring (\<lambda>_. 255) 8)])],
        VInt32 (- 1)])]"
  using present_hints [of example_state 0 "example_env (reply_with [VUInt32 7])" 0]
    present_hints [of example_state 1 "example_env (reply_with [VUInt32 7])" 0]
  by (simp add: example_state_def example_notification_def null_image_def argb_image_def
      convert_image_fst byteCount_def example_env_def example_convertTo_def)

section \<open>The image encoder\<close>

text \<open>
  Claim C6. For every notification whose icon is not null (and is an image after the
  conversion, with sizes that are not negative), the structure under \<^verbatim>\<open>image-data\<close>
  in the hints of the call, which is what the encoder gives for the icon, has seven fields
  in this order: the width, the height and the bytes per line of the converted icon as
  signed 32-bit integers, whether it has an alpha channel as a boolean, the signed 32-bit
  integers 8 (bits per sample) and 4 (channels), whatever the pixel format of the icon
  was, and as byte array the first bytes-per-line times height bytes of the pixel data of
  the converted icon, so an array of exactly that length.
\<close>

theorem convert_image_structure:
  assumes "\<not> isNull (icon (notifications st h))"
    and "img = convertTo e (icon (notifications st h)) Format_RGBA8888"
    and "\<not> isNull img"
    and "0 \<le> bytesPerLine img" and "0 \<le> height img"
  shows "calls (events (snd (present e h st))) =
           calls (events st) @
           [(BlockWithGui, ''Notify'',
             [VString ''qutebrowser'', VUInt32 0, VString ''qutebrowser'',
              VString (title (notifications st h)), VString (message (notifications st h)),
              VStringList [],
              VMap [(''x-qutebrowser-origin'', VString (origin_display (notifications st h))),
                    (''image-data'',
                     VStruct [VInt32 (width img), VInt32 (height img),
                              VInt32 (bytesPerLine img), VBool (hasAlphaChannel img),
                              VInt32 8, VInt32 4,
                              VByteArray (map (constBits img)
                                            [0..<nat (bytesPerLine img * height img)])])],
              VInt32 (- 1)])]
       \<and> fst (convert_image e a (st\<lparr>images := (images st)(a := icon (notifications st h))\<rparr>)) =
           VStruct [VInt32 (width img), VInt32 (height img),
                    VInt32 (bytesPerLine img), VBool (hasAlphaChannel img),
                    VInt32 8, VInt32 4,
                    VByteArray (map (constBits img) [0..<nat (bytesPerLine img * height img)])]
       \<and> int (length (map (constBits img) [0..<nat (bytesPerLine img * height img)])) =
           bytesPerLine img * height img"
  using assms
  by (simp add: present_calls present_arguments_fst convert_image_fst byteCount_def
      asstring_def)

theorem convert_image_structure_witness:
  "\<not> isNull (icon (notifications
        (example_state\<lparr>notifications := (\<lambda>_. example_notification bgra_image)\<rparr>) 2))
   \<and> \<not> isNull (bgra_convertTo bgra_image Format_RGBA8888)
   \<and> 0 \<le> bytesPerLine (bgra_convertTo bgra_image Format_RGBA8888)
   \<and> 0 \<le> height (bgra_convertTo bgra_image Format_RGBA8888)
   \<and> calls (events (snd (present
        ((example_env (reply_with [VUInt32 7]))\<lparr>convertTo := bgra_convertTo\<rparr>) 2
        (example_state\<lparr>notifications := (\<lambda>_. example_notification bgra_image)\<rparr>)))) =
       [(BlockWithGui, ''Notify'',
         [VString ''qutebrowser'', VUInt32 0, VString ''qutebrowser'', VString ''Build failed'',
          VString ''see log'', VStringList [],
          VMap [(''x-qutebrowser-origin'', VString ''https://ci.example.com''),
                (''image-data'',
                 VStruct [VInt32 1, VInt32 2, VInt32 4, VBool True, VInt32 8, VInt32 4,
                          VByteArray [12, 11, 10, 13, 16, 15, 14, 17]])],
          VInt32 (- 1)])]
   \<and> int (length [12, 11, 10, 13, 16, 15, 14, 17 :: byte]) = 4 * 2"
proof -
  let ?e = "(example_env (reply_with [VUInt32 7]))\<lparr>convertTo := bgra_convertTo\<rparr>"
  let ?st = "example_state\<lparr>notifications := (\<lambda>_. example_notification bgra_image)\<rparr>"
  have img: "convertTo ?e (icon (notifications ?st 2)) Format_RGBA8888 =
      \<lparr>isNull = False, format = Format_RGBA8888, width = 1, height = 2, bytesPerLine = 4,
       hasAlphaChannel = True,
       constBits = swap_red_blue (\<lambda>i. [10, 11, 12, 13, 14, 15, 16, 17] ! i)\<rparr>"
    by (simp add: example_notification_def bgra_image_def bgra_convertTo_def)
  have bytes: "map (swap_red_blue (\<lambda>i. [10, 11, 12, 13, 14, 15, 16, 17] ! i)) [0..<8] =
      [12, 11, 10, 13, 16, 15, 14, 17]"
    by (simp add: swap_red_blue_def upt_rec)
  have nonnull: "\<not> isNull (icon (notifications ?st 2))"
    by (simp add: example_notification_def bgra_image_def)
  from convert_image_structure [where e = ?e and st = ?st and h = 2 and a = 0,
      OF nonnull img [symmetric]]
  show ?thesis
    using bytes
    by (simp add: example_notification_def bgra_image_def bgra_convertTo_def
        example_state_events)
qed

text \<open>
  Claim C10 says that after \<open>present\<close> with an icon the icon held by the notification
  has been converted, because the encoder works on a shared buffer. It has not: the
  encoder is handed the image that \<^verbatim>\<open>icon()\<close> returns, a copy. For notification 1,
  whose icon is in the format ARGB32, the notification's icon is in that format after
  \<open>present\<close> as before, and the converted image is the temporary one at address 1.
\<close>

theorem present_icon_counterexample:
  "\<not> isNull (icon (notifications example_state 1))
   \<and> format (icon (notifications
        (snd (present (example_env (reply_with [VUInt32 7])) 1 example_state)) 1)) = Format_ARGB32
   \<and> icon (notifications
        (snd (present (example_env (reply_with [VUInt32 7])) 1 example_state)) 1) =
       icon (notifications example_state 1)
   \<and> format (images
        (snd (present (example_env (reply_with [VUInt32 7])) 1 example_state)) 1) = Format_RGBA8888"
  by (simp add: present_notifications present_images present_arguments_images
      example_state_def example_notification_def argb_image_def example_env_def
      example_convertTo_def)

text \<open>
  Claim C10, as the code has it. The encoder converts the image object it is given in
  place, before it reads it: afterwards the object at that address is the converted one,
  every other object is as it was, and the seven fields are read from the converted
  object. In \<open>present\<close> that object is the temporary that this call of \<^verbatim>\<open>icon()\<close>
  returned: \<open>present\<close> changes the notification by marking it as shown and nothing else,
  so the icon it holds is the one it held.
\<close>

theorem convert_image_in_place:
  "snd (convert_image e a st) =
     st\<lparr>images := (images st)(a := convertTo e (images st a) Format_RGBA8888)\<rparr>
   \<and> fst (convert_image e a st) =
       VStruct [VInt32 (width (images (snd (convert_image e a st)) a)),
                VInt32 (height (images (snd (convert_image e a st)) a)),
                VInt32 (bytesPerLine (images (snd (convert_image e a st)) a)),
                VBool (hasAlphaChannel (images (snd (convert_image e a st)) a)),
                VInt32 8, VInt32 4,
                VByteArray (asstring (constBits (images (snd (convert_image e a st)) a))
                                     (byteCount (images (snd (convert_image e a st)) a)))]
   \<and> notifications (snd (present e h st)) =
       (notifications st)(h := (notifications st h)\<lparr>shown := True\<rparr>)
   \<and> icon (notifications (snd (present e h st)) h) = icon (notifications st h)
   \<and> (\<not> isNull (icon (notifications st h)) \<longrightarrow>
        images (snd (present e h st)) =
          (images st)(next_image st := icon (notifications st h),
                      Suc (next_image st) :=
                        convertTo e (icon (notifications st h)) Format_RGBA8888))"
  by (simp add: convert_image_fst convert_image_snd present_notifications present_images
      present_arguments_images)

theorem convert_image_in_place_witness:
  "\<not> isNull (icon (notifications example_state 1))
   \<and> format (images (snd (convert_image (example_env (reply_with [VUInt32 7])) 5
         (example_state\<lparr>images := (images example_state)(5 := argb_image)\<rparr>))) 5)
       = Format_RGBA8888
   \<and> images (snd (present (example_env (reply_with [VUInt32 7])) 1 example_state)) 1 =
       example_convertTo argb_image Format_RGBA8888
   \<and> icon (notifications
        (snd (present (example_env (reply_with [VUInt32 7])) 1 example_state)) 1) = argb_image"
  using convert_image_in_place [where e = "example_env (reply_with [VUInt32 7])" and a = 5
      and st = "example_state\<lparr>images := (images example_state)(5 := argb_image)\<rparr>" and h = 1]
    convert_image_in_place [where e = "example_env (reply_with [VUInt32 7])" and a = 5
      and st = example_state and h = 1]
  by (simp add: example_state_def example_notification_def argb_image_def example_env_def
      example_convertTo_def)

section \<open>The presenter and the registry over time\<close>

text \<open>
  Claim C3. Every invocation of the installed callback first installs the callback again
  on the same profile and then does what \<open>present\<close> does, whatever \<open>present\<close> comes to:
  after the invocation the callback is installed, whether it returned or raised. So after
  \<open>set_as_presenter_for\<close> and any number of further steps (notifications whose remote call
  fails among them, on an engine that gives up a presenter it invokes or not) the
  callback is still installed, and one more notification of that profile is presented:
  it issues its remote call.
\<close>

theorem presenter_reinstalled:
  "events (snd (present_and_reset e p h st)) =
     events st @ SetNotificationPresenter p (Present_and_reset p)
       # drop (length (events st)) (events (snd (present e h st)))
   \<and> presenter (snd (present_and_reset e p h st)) p = Some (Present_and_reset p)
   \<and> presenter (run (set_as_presenter_for p st) os) p = Some (Present_and_reset p)
   \<and> calls (events (snd (engine_notify e p h (run (set_as_presenter_for p st) os)))) =
       calls (events (run (set_as_presenter_for p st) os)) @
       [(BlockWithGui, ''Notify'',
         fst (present_arguments e h (run (set_as_presenter_for p st) os)))]"
proof -
  have "presenter (set_as_presenter_for p st) p = Some (Present_and_reset p)"
    by (simp add: set_as_presenter_for_def setNotificationPresenter_def)
  then have "presenter (run (set_as_presenter_for p st) os) p = Some (Present_and_reset p)"
    by (rule run_presenter)
  then show ?thesis
    by (simp add: present_and_reset_events present_and_reset_presenter engine_notify_calls)
qed

theorem presenter_reinstalled_witness:
  "fst (present_and_reset (example_env (reply_with [VUInt32 7, VUInt32 8])) 3 0 example_state) =
     Inl (DBusException ''Got an unexpected number of reply arguments 2'')
   \<and> presenter (snd (present_and_reset (example_env (reply_with [VUInt32 7, VUInt32 8])) 3 0
        example_state)) 3 = Some (Present_and_reset 3)
   \<and> presenter
       (run (set_as_presenter_for 3 example_state)
          [(example_env (reply_with [VUInt32 7, VUInt32 8]), Notification 3 0),
           (example_env (reply_with [VUInt32 7]), Notification 3 1)]) 3 =
       Some (Present_and_reset 3)
   \<and> length (calls (events (snd (engine_notify (example_env (reply_with [VUInt32 8])) 3 0
        (run (set_as_presenter_for 3 example_state)
          [(example_env (reply_with [VUInt32 7, VUInt32 8]), Notification 3 0),
           (example_env (reply_with [VUInt32 7]), Notification 3 1)]))))) =
       Suc (length (calls (events
        (run (set_as_presenter_for 3 example_state)
          [(example_env (reply_with [VUInt32 7, VUInt32 8]), Notification 3 0),
           (example_env (reply_with [VUInt32 7]), Notification 3 1)]))))"
  using presenter_reinstalled [of "example_env (reply_with [VUInt32 7, VUInt32 8])" 3 0
      example_state
      "[(example_env (reply_with [VUInt32 7, VUInt32 8]), Notification 3 0),
        (example_env (reply_with [VUInt32 7]), Notification 3 1)]"]
    presenter_reinstalled [of "example_env (reply_with [VUInt32 8])" 3 0 example_state
      "[(example_env (reply_with [VUInt32 7, VUInt32 8]), Notification 3 0),
        (example_env (reply_with [VUInt32 7]), Notification 3 1)]"]
  by (simp add: present_and_reset_def present_fst arguments_call example_call
      arguments_reply_with str_nat_digit)

text \<open>
  Claim C9. No method writes the registry: \<open>present\<close>, \<open>set_as_presenter_for\<close>, the
  installed callback and every sequence of steps leave \<open>active_notifications\<close> as it
  was, so the registry of a manager that \<open>init\<close> has built stays empty.
\<close>

theorem registry_never_changes:
  "active_notifications (self (snd (present e h st))) = active_notifications (self st)
   \<and> active_notifications (self (set_as_presenter_for p st)) = active_notifications (self st)
   \<and> active_notifications (self (snd (present_and_reset e p h st))) =
       active_notifications (self st)
   \<and> active_notifications (self (run st os)) = active_notifications (self st)
   \<and> (init e' = Inr m \<longrightarrow> self st = m \<longrightarrow>
        active_notifications (self (run st os)) = Map.empty)"
  by (auto simp add: present_self set_as_presenter_for_self present_and_reset_self run_self
      init_result split: if_splits)

theorem registry_never_changes_witness:
  "init (example_env (reply_with [VUInt32 7])) = Inr (self example_state)
   \<and> active_notifications
       (self (run example_state
          [(example_env (reply_with [VUInt32 7]), Set_as_presenter_for 3),
           (example_env (reply_with [VUInt32 7]), Notification 3 0),
           (example_env (reply_with []), Notification 3 1)])) = Map.empty"
  using registry_never_changes [of "example_env (reply_with [VUInt32 7])" 0 example_state 3
      "[(example_env (reply_with [VUInt32 7]), Set_as_presenter_for 3),
        (example_env (reply_with [VUInt32 7]), Notification 3 0),
        (example_env (reply_with []), Notification 3 1)]"
      "example_env (reply_with [VUInt32 7])" "self example_state"]
  by (simp add: init_result example_env_def example_interface_def example_state_def)

end

